theory Spec2Isabelle
  imports Main "HOL-Library.Multiset"
begin

section \<open>Data model (the three Mongoose schemas of \<^verbatim>\<open>src/index.js\<close>)\<close>

text \<open>
  \<^verbatim>\<open>src/index.js\<close> holds three revisions of the server one after the other.
  Lines 1-370 are called revision 1 here, lines 371-794 revision 2; the third part
  (lines 794-902) has the login and \<^verbatim>\<open>/profile\<close> routes only, word for word those of
  revision 1. A route handler that is the same text in both revisions is embedded once;
  one that differs is embedded twice, with the suffixes \<open>_rev1\<close> and \<open>_rev2\<close>.

  An ObjectId is a natural number. The driver draws a new one for every created
  document; the store keeps the next one in \<open>next_oid\<close>.
\<close>

type_synonym objectid = nat

record user =
  u_id :: objectid
  u_googleId :: string
  u_name :: string
  u_email :: string
  u_picture :: string
  u_role :: string

record seller =
  s_id :: objectid
  s_userId :: objectid
  s_name :: string
  s_email :: string
  s_shopName :: string
  s_shopType :: string
  s_shopPhoto :: "string option"
  s_shopLocation :: "string option"

text \<open>A nullable schema path is an option: \<open>None\<close> is JavaScript's \<^verbatim>\<open>null\<close> (or a path
  that was never set). Revision 1 has no \<^verbatim>\<open>productType\<close> path: its products keep \<open>None\<close>
  there.\<close>

record product =
  p_id :: objectid
  p_sellerId :: objectid
  p_shopId :: objectid
  p_shopName :: "string option"
  p_shopType :: "string option"
  p_brand :: "string option"
  p_model :: "string option"
  p_productType :: "string option"
  p_color :: "string option"
  p_price :: "int option"
  p_image :: "string option"
  p_storage :: "string option"
  p_ram :: "string option"

record db =
  users :: "user list"
  sellers :: "seller list"
  products :: "product list"
  next_oid :: objectid

definition empty_db :: db where
  "empty_db = \<lparr>users = [], sellers = [], products = [], next_oid = 0\<rparr>"

subsection \<open>Requests and responses\<close>

text \<open>A property of \<^verbatim>\<open>req.body\<close>: missing (\<^verbatim>\<open>undefined\<close>), \<^verbatim>\<open>null\<close>, or a value.
  Values are taken with the type of the schema path they are stored in (Mongoose's casts
  between strings and numbers are not modelled), and \<^verbatim>\<open>req.params.id\<close> is taken as a
  well-formed ObjectId.\<close>

datatype 'a field = Undefined | Null | Given 'a

fun to_opt :: "'a field \<Rightarrow> 'a option" where
  "to_opt Undefined = None"
| "to_opt Null = None"
| "to_opt (Given v) = Some v"

record seller_form =
  f_shopName :: "string field"
  f_shopType :: "string field"
  f_shopLocation :: "string field"

record product_form =
  b_brand :: "string field"
  b_model :: "string field"
  b_productType :: "string field"
  b_color :: "string field"
  b_storage :: "string field"
  b_ram :: "string field"
  b_price :: "int field"

datatype json =
    Message string
  | UserJson "user option"
  | SellerJson seller
  | MessageSeller string seller
  | MessageProduct string product
  | ProductsJson "product list"
  | ProductsRoleJson "product list" string

record response =
  status :: nat
  body :: json

definition reply :: "nat \<Rightarrow> json \<Rightarrow> response" where
  "reply code j = \<lparr>status = code, body = j\<rparr>"

definition server_error :: response where
  "server_error = reply 500 (Message ''Server error'')"

definition unauthorized :: response where
  "unauthorized = reply 401 (Message ''Unauthorized'')"

definition access_denied :: response where
  "access_denied = reply 403 (Message ''Access denied'')"

section \<open>Token Codec\<close>

text \<open>
  Modelled from the spec: \<^verbatim>\<open>jwt.sign\<close> and \<^verbatim>\<open>jwt.verify\<close> belong to the
  \<^verbatim>\<open>jsonwebtoken\<close> package, whose code is not in \<^verbatim>\<open>src/\<close>. Section 4.1 of the spec:
  \<^verbatim>\<open>issue(subject_id, role?) -> credential\<close> gives a signed, time-boxed token, and
  \<^verbatim>\<open>verify(credential) -> subject_id, role | fails(Expired | Malformed | BadSignature)\<close>.
  A token is either a well-formed one, with its payload, the second it was issued at,
  the second it expires at and the key it was signed with, or any other cookie string.
  Time is the clock in seconds.
\<close>

record payload =
  pl_id :: objectid
  pl_role :: "string option"

datatype token = Jwt payload nat nat string | Raw string

datatype jwt_error = Expired | Malformed | BadSignature

definition jwt_sign :: "payload \<Rightarrow> string \<Rightarrow> nat \<Rightarrow> nat \<Rightarrow> token" where
  "jwt_sign pl secret expiresIn now = Jwt pl now (now + expiresIn) secret"

fun jwt_verify :: "token \<Rightarrow> string \<Rightarrow> nat \<Rightarrow> jwt_error + payload" where
  "jwt_verify (Raw s) secret now = Inl Malformed"
| "jwt_verify (Jwt pl iat exp key) secret now =
     (if key = secret then (if now < exp then Inr pl else Inl Expired)
      else Inl BadSignature)"

text \<open>\<^verbatim>\<open>!token\<close>: the cookie string is falsy when it is empty. A well-formed token is
  never the empty string.\<close>

fun falsy :: "token \<Rightarrow> bool" where
  "falsy (Raw s) = (s = [])"
| "falsy (Jwt pl iat exp key) = False"

section \<open>Store operations (the Mongoose calls the handlers make)\<close>

text \<open>A store call may throw (the connection is lost, the write is refused); the
  handler's \<^verbatim>\<open>catch\<close> then answers. A request meets at most one such throw, since the
  first one ends it: \<open>Some k\<close> says that the handler's \<open>k\<close>-th store call throws,
  \<open>None\<close> that none does.\<close>

type_synonym fault = "nat option"

definition throws :: "fault \<Rightarrow> nat \<Rightarrow> bool" where
  "throws f k = (f = Some k)"

definition User_findById :: "db \<Rightarrow> objectid \<Rightarrow> user option" where
  "User_findById d i = find (\<lambda>u. u_id u = i) (users d)"

definition User_findOne :: "db \<Rightarrow> string \<Rightarrow> user option" where
  "User_findOne d g = find (\<lambda>u. u_googleId u = g) (users d)"

definition Seller_findOne :: "db \<Rightarrow> objectid \<Rightarrow> seller option" where
  "Seller_findOne d uid = find (\<lambda>s. s_userId s = uid) (sellers d)"

definition Product_findById :: "db \<Rightarrow> objectid \<Rightarrow> product option" where
  "Product_findById d i = find (\<lambda>p. p_id p = i) (products d)"

text \<open>\<^verbatim>\<open>Product.find().sort({ _id: -1 })\<close> and \<^verbatim>\<open>Product.find({ sellerId }).sort({ _id: -1 })\<close>.\<close>

definition Product_find :: "db \<Rightarrow> product list" where
  "Product_find d = rev (sort_key p_id (products d))"

definition Product_find_sellerId :: "db \<Rightarrow> objectid \<Rightarrow> product list" where
  "Product_find_sellerId d sid =
     rev (sort_key p_id (filter (\<lambda>p. p_sellerId p = sid) (products d)))"

text \<open>\<^verbatim>\<open>User.create\<close>: \<^verbatim>\<open>googleId\<close> is \<^verbatim>\<open>required\<close>; a required string that is
  missing or empty fails validation and nothing is written (\<open>None\<close>).\<close>

definition User_create ::
  "db \<Rightarrow> string \<Rightarrow> string \<Rightarrow> string \<Rightarrow> string \<Rightarrow> string \<Rightarrow> (db \<times> user) option" where
  "User_create d gid nm em pic rl =
     (if gid = [] then None
      else let u = \<lparr>u_id = next_oid d, u_googleId = gid, u_name = nm, u_email = em,
                     u_picture = pic, u_role = rl\<rparr>
           in Some (d\<lparr>users := users d @ [u], next_oid := Suc (next_oid d)\<rparr>, u))"

text \<open>\<^verbatim>\<open>Seller.create\<close>: \<^verbatim>\<open>shopName\<close> and \<^verbatim>\<open>shopType\<close> are \<^verbatim>\<open>required\<close>.\<close>

definition Seller_create ::
  "db \<Rightarrow> objectid \<Rightarrow> string \<Rightarrow> string \<Rightarrow> string field \<Rightarrow> string field \<Rightarrow>
   string option \<Rightarrow> string field \<Rightarrow> (db \<times> seller) option" where
  "Seller_create d uid nm em shopName shopType shopPhoto shopLocation =
     (case shopName of
        Given sn \<Rightarrow>
          (case shopType of
             Given st \<Rightarrow>
               (if sn = [] \<or> st = [] then None
                else let s = \<lparr>s_id = next_oid d, s_userId = uid, s_name = nm, s_email = em,
                               s_shopName = sn, s_shopType = st, s_shopPhoto = shopPhoto,
                               s_shopLocation = to_opt shopLocation\<rparr>
                     in Some (d\<lparr>sellers := sellers d @ [s], next_oid := Suc (next_oid d)\<rparr>, s))
           | Undefined \<Rightarrow> None
           | Null \<Rightarrow> None)
      | Undefined \<Rightarrow> None
      | Null \<Rightarrow> None)"

text \<open>\<^verbatim>\<open>Product.create\<close>: the two required paths are ObjectIds the handler always
  supplies, so validation cannot fail. The argument carries every path but \<^verbatim>\<open>_id\<close>,
  which is drawn here.\<close>

definition Product_create :: "db \<Rightarrow> product \<Rightarrow> db \<times> product" where
  "Product_create d doc =
     (let p = doc\<lparr>p_id := next_oid d\<rparr>
      in (d\<lparr>products := products d @ [p], next_oid := Suc (next_oid d)\<rparr>, p))"

text \<open>\<^verbatim>\<open>doc.save()\<close> writes the document back under its \<^verbatim>\<open>_id\<close>;
  \<^verbatim>\<open>Product.findByIdAndDelete\<close> removes the document with that \<^verbatim>\<open>_id\<close>.\<close>

definition user_save :: "db \<Rightarrow> user \<Rightarrow> db" where
  "user_save d u = d\<lparr>users := map (\<lambda>v. if u_id v = u_id u then u else v) (users d)\<rparr>"

definition product_save :: "db \<Rightarrow> product \<Rightarrow> db" where
  "product_save d p =
     d\<lparr>products := map (\<lambda>q. if p_id q = p_id p then p else q) (products d)\<rparr>"

definition Product_findByIdAndDelete :: "db \<Rightarrow> objectid \<Rightarrow> db" where
  "Product_findByIdAndDelete d i = d\<lparr>products := filter (\<lambda>q. p_id q \<noteq> i) (products d)\<rparr>"

section \<open>Login\<close>

record profile =
  pr_id :: string
  displayName :: string
  emails :: "string list"
  photos :: "string list"

text \<open>The verify callback of the Google strategy (lines 97-113, 474-490): the user with
  this \<^verbatim>\<open>googleId\<close> if there is one, a new \<^verbatim>\<open>customer\<close> otherwise. \<^verbatim>\<open>done(err, null)\<close>
  is \<open>None\<close>; reading \<^verbatim>\<open>profile.emails[0].value\<close> of an empty array throws.\<close>

definition google_strategy :: "fault \<Rightarrow> db \<Rightarrow> profile \<Rightarrow> db \<times> user option" where
  "google_strategy f d prof =
     (if throws f 1 then (d, None)
      else case User_findOne d (pr_id prof) of
        Some existingUser \<Rightarrow> (d, Some existingUser)
      | None \<Rightarrow>
          (case emails prof of
             [] \<Rightarrow> (d, None)
           | e # es \<Rightarrow>
               (case photos prof of
                  [] \<Rightarrow> (d, None)
                | ph # phs \<Rightarrow>
                    (if throws f 2 then (d, None)
                     else case User_create d (pr_id prof) (displayName prof) e ph ''customer'' of
                       None \<Rightarrow> (d, None)
                     | Some (d', newUser) \<Rightarrow> (d', Some newUser)))))"

text \<open>\<^verbatim>\<open>GET /auth/google/callback\<close>: the token put in the cookie. \<^verbatim>\<open>expiresIn: "1d"\<close> is
  86400 seconds. Revision 1 (lines 124-126) signs the id only, revision 2
  (lines 501-503) the id and the role the user has at that moment.\<close>

definition auth_google_callback_rev1 :: "string \<Rightarrow> nat \<Rightarrow> user \<Rightarrow> token" where
  "auth_google_callback_rev1 secret now u =
     jwt_sign \<lparr>pl_id = u_id u, pl_role = None\<rparr> secret 86400 now"

definition auth_google_callback_rev2 :: "string \<Rightarrow> nat \<Rightarrow> user \<Rightarrow> token" where
  "auth_google_callback_rev2 secret now u =
     jwt_sign \<lparr>pl_id = u_id u, pl_role = Some (u_role u)\<rparr> secret 86400 now"

section \<open>Route handlers\<close>

text \<open>Every handler takes the store fault of the request, \<^verbatim>\<open>JWT_SECRET\<close>, the clock, the
  store and \<^verbatim>\<open>req.cookies.token\<close>, and returns the store it leaves and the response.
  \<^verbatim>\<open>res.json\<close> with no status set answers 200.\<close>

subsection \<open>\<^verbatim>\<open>GET /profile\<close> (lines 144-155, 521-532)\<close>

definition get_profile ::
  "fault \<Rightarrow> string \<Rightarrow> nat \<Rightarrow> db \<Rightarrow> token option \<Rightarrow> db \<times> response" where
  "get_profile f secret now d cookie =
     (case cookie of
        None \<Rightarrow> (d, unauthorized)
      | Some tok \<Rightarrow>
          (if falsy tok then (d, unauthorized)
           else case jwt_verify tok secret now of
             Inl err \<Rightarrow> (d, unauthorized)
           | Inr decoded \<Rightarrow>
               (if throws f 1 then (d, unauthorized)
                else (d, reply 200 (UserJson (User_findById d (pl_id decoded)))))))"

subsection \<open>\<^verbatim>\<open>POST /seller/register\<close> (lines 158-196, 535-573)\<close>

text \<open>Store calls: 1 \<^verbatim>\<open>User.findById\<close>, 2 \<^verbatim>\<open>Seller.findOne\<close>, 3 \<^verbatim>\<open>Seller.create\<close>,
  4 \<^verbatim>\<open>user.save\<close>. \<open>file\<close> is \<^verbatim>\<open>req.file.path\<close> when a photo was uploaded.\<close>

definition post_seller_register ::
  "fault \<Rightarrow> string \<Rightarrow> nat \<Rightarrow> db \<Rightarrow> token option \<Rightarrow> seller_form \<Rightarrow> string option
   \<Rightarrow> db \<times> response" where
  "post_seller_register f secret now d cookie form file =
     (case cookie of
        None \<Rightarrow> (d, unauthorized)
      | Some tok \<Rightarrow>
          (if falsy tok then (d, unauthorized)
           else case jwt_verify tok secret now of
             Inl err \<Rightarrow> (d, server_error)
           | Inr decoded \<Rightarrow>
               (if throws f 1 then (d, server_error)
                else case User_findById d (pl_id decoded) of
                  None \<Rightarrow> (d, reply 404 (Message ''User not found''))
                | Some u \<Rightarrow>
                    (if throws f 2 then (d, server_error)
                     else case Seller_findOne d (u_id u) of
                       Some existingSeller \<Rightarrow>
                         (d, reply 400 (Message ''You are already a seller''))
                     | None \<Rightarrow>
                         (if throws f 3 then (d, server_error)
                          else case Seller_create d (u_id u) (u_name u) (u_email u)
                                      (f_shopName form) (f_shopType form) file
                                      (f_shopLocation form) of
                            None \<Rightarrow> (d, server_error)
                          | Some (d1, newSeller) \<Rightarrow>
                              (if throws f 4 then (d1, server_error)
                               else (user_save d1 (u\<lparr>u_role := ''seller''\<rparr>),
                                     reply 200 (MessageSeller
                                       ''Seller registered successfully'' newSeller))))))))"

subsection \<open>\<^verbatim>\<open>GET /seller/me\<close> (lines 199-218, 576-595)\<close>

definition get_seller_me ::
  "fault \<Rightarrow> string \<Rightarrow> nat \<Rightarrow> db \<Rightarrow> token option \<Rightarrow> db \<times> response" where
  "get_seller_me f secret now d cookie =
     (case cookie of
        None \<Rightarrow> (d, unauthorized)
      | Some tok \<Rightarrow>
          (if falsy tok then (d, unauthorized)
           else case jwt_verify tok secret now of
             Inl err \<Rightarrow> (d, server_error)
           | Inr decoded \<Rightarrow>
               (if throws f 1 then (d, server_error)
                else case User_findById d (pl_id decoded) of
                  None \<Rightarrow> (d, access_denied)
                | Some u \<Rightarrow>
                    (if u_role u \<noteq> ''seller'' then (d, access_denied)
                     else if throws f 2 then (d, server_error)
                     else case Seller_findOne d (u_id u) of
                       None \<Rightarrow> (d, reply 404 (Message ''Seller not found''))
                     | Some s \<Rightarrow> (d, reply 200 (SellerJson s))))))"

subsection \<open>\<^verbatim>\<open>POST /product/add\<close>\<close>

text \<open>Store calls: 1 \<^verbatim>\<open>User.findById\<close>, 2 \<^verbatim>\<open>Seller.findOne\<close>, 3 \<^verbatim>\<open>Product.create\<close>.
  Revision 1 (lines 221-258) stores \<^verbatim>\<open>sellerId: user._id\<close>; revision 2 (lines 598-653)
  stores \<^verbatim>\<open>sellerId: seller._id\<close> and has the \<^verbatim>\<open>productType\<close> path.\<close>

definition post_product_add_rev1 ::
  "fault \<Rightarrow> string \<Rightarrow> nat \<Rightarrow> db \<Rightarrow> token option \<Rightarrow> product_form \<Rightarrow> string option
   \<Rightarrow> db \<times> response" where
  "post_product_add_rev1 f secret now d cookie form file =
     (case cookie of
        None \<Rightarrow> (d, unauthorized)
      | Some tok \<Rightarrow>
          (if falsy tok then (d, unauthorized)
           else case jwt_verify tok secret now of
             Inl err \<Rightarrow> (d, server_error)
           | Inr decoded \<Rightarrow>
               (if throws f 1 then (d, server_error)
                else case User_findById d (pl_id decoded) of
                  None \<Rightarrow> (d, access_denied)
                | Some u \<Rightarrow>
                    (if u_role u \<noteq> ''seller'' then (d, access_denied)
                     else if throws f 2 then (d, server_error)
                     else case Seller_findOne d (u_id u) of
                       None \<Rightarrow> (d, reply 404 (Message ''Seller not found''))
                     | Some s \<Rightarrow>
                         (if throws f 3 then (d, server_error)
                          else case Product_create d
                                 \<lparr>p_id = 0, p_sellerId = u_id u, p_shopId = s_id s,
                                  p_shopName = Some (s_shopName s),
                                  p_shopType = Some (s_shopType s),
                                  p_brand = to_opt (b_brand form),
                                  p_model = to_opt (b_model form),
                                  p_productType = None,
                                  p_color = to_opt (b_color form),
                                  p_price = to_opt (b_price form),
                                  p_image = file,
                                  p_storage = to_opt (b_storage form),
                                  p_ram = to_opt (b_ram form)\<rparr> of
                            (d1, newProduct) \<Rightarrow>
                              (d1, reply 200 (MessageProduct
                                     ''Product added successfully'' newProduct)))))))"

definition post_product_add_rev2 ::
  "fault \<Rightarrow> string \<Rightarrow> nat \<Rightarrow> db \<Rightarrow> token option \<Rightarrow> product_form \<Rightarrow> string option
   \<Rightarrow> db \<times> response" where
  "post_product_add_rev2 f secret now d cookie form file =
     (case cookie of
        None \<Rightarrow> (d, unauthorized)
      | Some tok \<Rightarrow>
          (if falsy tok then (d, unauthorized)
           else case jwt_verify tok secret now of
             Inl err \<Rightarrow> (d, server_error)
           | Inr decoded \<Rightarrow>
               (if throws f 1 then (d, server_error)
                else case User_findById d (pl_id decoded) of
                  None \<Rightarrow> (d, access_denied)
                | Some u \<Rightarrow>
                    (if u_role u \<noteq> ''seller'' then (d, access_denied)
                     else if throws f 2 then (d, server_error)
                     else case Seller_findOne d (u_id u) of
                       None \<Rightarrow> (d, reply 404 (Message ''Seller not found''))
                     | Some s \<Rightarrow>
                         (if throws f 3 then (d, server_error)
                          else case Product_create d
                                 \<lparr>p_id = 0, p_sellerId = s_id s, p_shopId = s_id s,
                                  p_shopName = Some (s_shopName s),
                                  p_shopType = Some (s_shopType s),
                                  p_brand = to_opt (b_brand form),
                                  p_model = to_opt (b_model form),
                                  p_productType = to_opt (b_productType form),
                                  p_color = to_opt (b_color form),
                                  p_price = to_opt (b_price form),
                                  p_image = file,
                                  p_storage = to_opt (b_storage form),
                                  p_ram = to_opt (b_ram form)\<rparr> of
                            (d1, newProduct) \<Rightarrow>
                              (d1, reply 200 (MessageProduct
                                     ''Product added successfully'' newProduct)))))))"

subsection \<open>\<^verbatim>\<open>GET /products\<close>\<close>

text \<open>Revision 1 (lines 261-269) never reads the cookie and sends \<^verbatim>\<open>{ products }\<close>.
  Revision 2 (lines 657-677) sends \<^verbatim>\<open>{ products, userRole }\<close>, where
  \<^verbatim>\<open>userRole = decoded.role || "customer"\<close> for a cookie that verifies and
  \<^verbatim>\<open>"customer"\<close> otherwise. The one store call is \<^verbatim>\<open>Product.find\<close>.\<close>

definition get_products_rev1 ::
  "fault \<Rightarrow> string \<Rightarrow> nat \<Rightarrow> db \<Rightarrow> token option \<Rightarrow> db \<times> response" where
  "get_products_rev1 f secret now d cookie =
     (if throws f 1 then (d, server_error)
      else (d, reply 200 (ProductsJson (Product_find d))))"

definition userRole_of :: "string \<Rightarrow> nat \<Rightarrow> token option \<Rightarrow> string" where
  "userRole_of secret now cookie =
     (case cookie of
        None \<Rightarrow> ''customer''
      | Some tok \<Rightarrow>
          (if falsy tok then ''customer''
           else case jwt_verify tok secret now of
             Inl err \<Rightarrow> ''customer''
           | Inr decoded \<Rightarrow>
               (case pl_role decoded of
                  None \<Rightarrow> ''customer''
                | Some r \<Rightarrow> if r = [] then ''customer'' else r)))"

definition get_products_rev2 ::
  "fault \<Rightarrow> string \<Rightarrow> nat \<Rightarrow> db \<Rightarrow> token option \<Rightarrow> db \<times> response" where
  "get_products_rev2 f secret now d cookie =
     (if throws f 1 then (d, server_error)
      else (d, reply 200 (ProductsRoleJson (Product_find d) (userRole_of secret now cookie))))"

subsection \<open>\<^verbatim>\<open>GET /products/my\<close> (lines 272-292, 680-700)\<close>

definition get_products_my_rev1 ::
  "fault \<Rightarrow> string \<Rightarrow> nat \<Rightarrow> db \<Rightarrow> token option \<Rightarrow> db \<times> response" where
  "get_products_my_rev1 f secret now d cookie =
     (case cookie of
        None \<Rightarrow> (d, unauthorized)
      | Some tok \<Rightarrow>
          (if falsy tok then (d, unauthorized)
           else case jwt_verify tok secret now of
             Inl err \<Rightarrow> (d, server_error)
           | Inr decoded \<Rightarrow>
               (if throws f 1 then (d, server_error)
                else case User_findById d (pl_id decoded) of
                  None \<Rightarrow> (d, access_denied)
                | Some u \<Rightarrow>
                    (if u_role u \<noteq> ''seller'' then (d, access_denied)
                     else if throws f 2 then (d, server_error)
                     else case Seller_findOne d (u_id u) of
                       None \<Rightarrow> (d, reply 404 (Message ''Seller not found''))
                     | Some s \<Rightarrow>
                         (if throws f 3 then (d, server_error)
                          else (d, reply 200
                                 (ProductsJson (Product_find_sellerId d (u_id u)))))))))"

definition get_products_my_rev2 ::
  "fault \<Rightarrow> string \<Rightarrow> nat \<Rightarrow> db \<Rightarrow> token option \<Rightarrow> db \<times> response" where
  "get_products_my_rev2 f secret now d cookie =
     (case cookie of
        None \<Rightarrow> (d, unauthorized)
      | Some tok \<Rightarrow>
          (if falsy tok then (d, unauthorized)
           else case jwt_verify tok secret now of
             Inl err \<Rightarrow> (d, server_error)
           | Inr decoded \<Rightarrow>
               (if throws f 1 then (d, server_error)
                else case User_findById d (pl_id decoded) of
                  None \<Rightarrow> (d, access_denied)
                | Some u \<Rightarrow>
                    (if u_role u \<noteq> ''seller'' then (d, access_denied)
                     else if throws f 2 then (d, server_error)
                     else case Seller_findOne d (u_id u) of
                       None \<Rightarrow> (d, reply 404 (Message ''Seller not found''))
                     | Some s \<Rightarrow>
                         (if throws f 3 then (d, server_error)
                          else (d, reply 200
                                 (ProductsJson (Product_find_sellerId d (s_id s)))))))))"

subsection \<open>\<^verbatim>\<open>PUT /product/update/:id\<close>\<close>

text \<open>Revision 1 (lines 315-324): \<^verbatim>\<open>if (brand) product.brand = brand;\<close> and so on; a
  value is assigned when it is truthy (a string that is not empty, a number that is not
  zero). \<^verbatim>\<open>if (req.file) product.image = req.file.path\<close>.\<close>

fun truthy_str :: "string field \<Rightarrow> bool" where
  "truthy_str (Given v) = (v \<noteq> [])"
| "truthy_str Undefined = False"
| "truthy_str Null = False"

fun truthy_num :: "int field \<Rightarrow> bool" where
  "truthy_num (Given n) = (n \<noteq> 0)"
| "truthy_num Undefined = False"
| "truthy_num Null = False"

definition assign_rev1 :: "product \<Rightarrow> product_form \<Rightarrow> string option \<Rightarrow> product" where
  "assign_rev1 p form file =
     p\<lparr>p_brand := (if truthy_str (b_brand form) then to_opt (b_brand form) else p_brand p),
       p_model := (if truthy_str (b_model form) then to_opt (b_model form) else p_model p),
       p_color := (if truthy_str (b_color form) then to_opt (b_color form) else p_color p),
       p_storage :=
         (if truthy_str (b_storage form) then to_opt (b_storage form) else p_storage p),
       p_ram := (if truthy_str (b_ram form) then to_opt (b_ram form) else p_ram p),
       p_price := (if truthy_num (b_price form) then to_opt (b_price form) else p_price p),
       p_image := (case file of None \<Rightarrow> p_image p | Some path \<Rightarrow> Some path)\<rparr>"

text \<open>Revision 2 (lines 726-744): \<^verbatim>\<open>const { brand = product.brand, ... } = req.body\<close>;
  a destructuring default stands in for \<^verbatim>\<open>undefined\<close> only, so \<^verbatim>\<open>null\<close> is assigned
  as it is.\<close>

fun destructure :: "'a field \<Rightarrow> 'a option \<Rightarrow> 'a option" where
  "destructure Undefined dflt = dflt"
| "destructure Null dflt = None"
| "destructure (Given v) dflt = Some v"

definition assign_rev2 :: "product \<Rightarrow> product_form \<Rightarrow> string option \<Rightarrow> product" where
  "assign_rev2 p form file =
     p\<lparr>p_brand := destructure (b_brand form) (p_brand p),
       p_model := destructure (b_model form) (p_model p),
       p_productType := destructure (b_productType form) (p_productType p),
       p_color := destructure (b_color form) (p_color p),
       p_storage := destructure (b_storage form) (p_storage p),
       p_ram := destructure (b_ram form) (p_ram p),
       p_price := destructure (b_price form) (p_price p),
       p_image := (case file of None \<Rightarrow> p_image p | Some path \<Rightarrow> Some path)\<rparr>"

text \<open>Revision 1 (lines 295-332). Store calls: 1 \<^verbatim>\<open>User.findById\<close>,
  2 \<^verbatim>\<open>Product.findById\<close>, 3 \<^verbatim>\<open>product.save\<close>. Ownership is
  \<^verbatim>\<open>product.sellerId.equals(user._id)\<close>.\<close>

definition put_product_update_rev1 ::
  "fault \<Rightarrow> string \<Rightarrow> nat \<Rightarrow> db \<Rightarrow> token option \<Rightarrow> objectid \<Rightarrow> product_form
   \<Rightarrow> string option \<Rightarrow> db \<times> response" where
  "put_product_update_rev1 f secret now d cookie pid form file =
     (case cookie of
        None \<Rightarrow> (d, unauthorized)
      | Some tok \<Rightarrow>
          (if falsy tok then (d, unauthorized)
           else case jwt_verify tok secret now of
             Inl err \<Rightarrow> (d, server_error)
           | Inr decoded \<Rightarrow>
               (if throws f 1 then (d, server_error)
                else case User_findById d (pl_id decoded) of
                  None \<Rightarrow> (d, access_denied)
                | Some u \<Rightarrow>
                    (if u_role u \<noteq> ''seller'' then (d, access_denied)
                     else if throws f 2 then (d, server_error)
                     else case Product_findById d pid of
                       None \<Rightarrow> (d, reply 404 (Message ''Product not found''))
                     | Some p \<Rightarrow>
                         (if p_sellerId p \<noteq> u_id u
                          then (d, reply 403 (Message ''You cannot update this product''))
                          else if throws f 3 then (d, server_error)
                          else (product_save d (assign_rev1 p form file),
                                reply 200 (MessageProduct ''Product updated successfully''
                                  (assign_rev1 p form file))))))))"

text \<open>Revision 2 (lines 703-752). Store calls: 1 \<^verbatim>\<open>User.findById\<close>,
  2 \<^verbatim>\<open>Seller.findOne\<close>, 3 \<^verbatim>\<open>Product.findById\<close>, 4 \<^verbatim>\<open>product.save\<close>. Ownership is
  \<^verbatim>\<open>product.sellerId.equals(seller._id)\<close>.\<close>

definition put_product_update_rev2 ::
  "fault \<Rightarrow> string \<Rightarrow> nat \<Rightarrow> db \<Rightarrow> token option \<Rightarrow> objectid \<Rightarrow> product_form
   \<Rightarrow> string option \<Rightarrow> db \<times> response" where
  "put_product_update_rev2 f secret now d cookie pid form file =
     (case cookie of
        None \<Rightarrow> (d, unauthorized)
      | Some tok \<Rightarrow>
          (if falsy tok then (d, unauthorized)
           else case jwt_verify tok secret now of
             Inl err \<Rightarrow> (d, server_error)
           | Inr decoded \<Rightarrow>
               (if throws f 1 then (d, server_error)
                else case User_findById d (pl_id decoded) of
                  None \<Rightarrow> (d, access_denied)
                | Some u \<Rightarrow>
                    (if u_role u \<noteq> ''seller'' then (d, access_denied)
                     else if throws f 2 then (d, server_error)
                     else case Seller_findOne d (u_id u) of
                       None \<Rightarrow> (d, reply 404 (Message ''Seller not found''))
                     | Some s \<Rightarrow>
                         (if throws f 3 then (d, server_error)
                          else case Product_findById d pid of
                            None \<Rightarrow> (d, reply 404 (Message ''Product not found''))
                          | Some p \<Rightarrow>
                              (if p_sellerId p \<noteq> s_id s
                               then (d, reply 403
                                          (Message ''You cannot update this product''))
                               else if throws f 4 then (d, server_error)
                               else (product_save d (assign_rev2 p form file),
                                     reply 200 (MessageProduct
                                       ''Product updated successfully''
                                       (assign_rev2 p form file)))))))))"

subsection \<open>\<^verbatim>\<open>DELETE /product/delete/:id\<close>\<close>

text \<open>Revision 1 (lines 335-361). Store calls: 1 \<^verbatim>\<open>User.findById\<close>,
  2 \<^verbatim>\<open>Product.findById\<close>, 3 \<^verbatim>\<open>Product.findByIdAndDelete\<close>.\<close>

definition delete_product_delete_rev1 ::
  "fault \<Rightarrow> string \<Rightarrow> nat \<Rightarrow> db \<Rightarrow> token option \<Rightarrow> objectid \<Rightarrow> db \<times> response" where
  "delete_product_delete_rev1 f secret now d cookie pid =
     (case cookie of
        None \<Rightarrow> (d, unauthorized)
      | Some tok \<Rightarrow>
          (if falsy tok then (d, unauthorized)
           else case jwt_verify tok secret now of
             Inl err \<Rightarrow> (d, server_error)
           | Inr decoded \<Rightarrow>
               (if throws f 1 then (d, server_error)
                else case User_findById d (pl_id decoded) of
                  None \<Rightarrow> (d, access_denied)
                | Some u \<Rightarrow>
                    (if u_role u \<noteq> ''seller'' then (d, access_denied)
                     else if throws f 2 then (d, server_error)
                     else case Product_findById d pid of
                       None \<Rightarrow> (d, reply 404 (Message ''Product not found''))
                     | Some p \<Rightarrow>
                         (if p_sellerId p \<noteq> u_id u
                          then (d, reply 403 (Message ''You cannot delete this product''))
                          else if throws f 3 then (d, server_error)
                          else (Product_findByIdAndDelete d pid,
                                reply 200 (Message ''Product deleted successfully'')))))))"

text \<open>Revision 2 (lines 755-784). Store calls: 1 \<^verbatim>\<open>User.findById\<close>,
  2 \<^verbatim>\<open>Seller.findOne\<close>, 3 \<^verbatim>\<open>Product.findById\<close>, 4 \<^verbatim>\<open>Product.findByIdAndDelete\<close>.\<close>

definition delete_product_delete_rev2 ::
  "fault \<Rightarrow> string \<Rightarrow> nat \<Rightarrow> db \<Rightarrow> token option \<Rightarrow> objectid \<Rightarrow> db \<times> response" where
  "delete_product_delete_rev2 f secret now d cookie pid =
     (case cookie of
        None \<Rightarrow> (d, unauthorized)
      | Some tok \<Rightarrow>
          (if falsy tok then (d, unauthorized)
           else case jwt_verify tok secret now of
             Inl err \<Rightarrow> (d, server_error)
           | Inr decoded \<Rightarrow>
               (if throws f 1 then (d, server_error)
                else case User_findById d (pl_id decoded) of
                  None \<Rightarrow> (d, access_denied)
                | Some u \<Rightarrow>
                    (if u_role u \<noteq> ''seller'' then (d, access_denied)
                     else if throws f 2 then (d, server_error)
                     else case Seller_findOne d (u_id u) of
                       None \<Rightarrow> (d, reply 404 (Message ''Seller not found''))
                     | Some s \<Rightarrow>
                         (if throws f 3 then (d, server_error)
                          else case Product_findById d pid of
                            None \<Rightarrow> (d, reply 404 (Message ''Product not found''))
                          | Some p \<Rightarrow>
                              (if p_sellerId p \<noteq> s_id s
                               then (d, reply 403
                                          (Message ''You cannot delete this product''))
                               else if throws f 4 then (d, server_error)
                               else (Product_findByIdAndDelete d pid,
                                     reply 200
                                       (Message ''Product deleted successfully''))))))))"

section \<open>A small marketplace, for evaluating the handlers\<close>

text \<open>Alice and Bob are sellers with one shop each, Carol is a customer. In \<open>shop_db\<close>
  the products are as revision 2 stores them (the owning-seller id is the shop's
  \<^verbatim>\<open>_id\<close>), in \<open>shop_db_rev1\<close> as revision 1 stores them (it is the user's \<^verbatim>\<open>_id\<close>).\<close>

definition alice :: user where
  "alice = \<lparr>u_id = 0, u_googleId = ''g-alice'', u_name = ''Alice'', u_email = ''a@x.org'',
            u_picture = ''a.png'', u_role = ''seller''\<rparr>"

definition bob :: user where
  "bob = \<lparr>u_id = 1, u_googleId = ''g-bob'', u_name = ''Bob'', u_email = ''b@x.org'',
          u_picture = ''b.png'', u_role = ''seller''\<rparr>"

definition carol :: user where
  "carol = \<lparr>u_id = 2, u_googleId = ''g-carol'', u_name = ''Carol'', u_email = ''c@x.org'',
            u_picture = ''c.png'', u_role = ''customer''\<rparr>"

definition alice_shop :: seller where
  "alice_shop = \<lparr>s_id = 3, s_userId = 0, s_name = ''Alice'', s_email = ''a@x.org'',
                 s_shopName = ''Alice Mobiles'', s_shopType = ''mobile'',
                 s_shopPhoto = None, s_shopLocation = Some ''Pune''\<rparr>"

definition bob_shop :: seller where
  "bob_shop = \<lparr>s_id = 4, s_userId = 1, s_name = ''Bob'', s_email = ''b@x.org'',
               s_shopName = ''Bob Home'', s_shopType = ''appliance'',
               s_shopPhoto = Some ''bob.jpg'', s_shopLocation = None\<rparr>"

definition phone :: product where
  "phone = \<lparr>p_id = 5, p_sellerId = 3, p_shopId = 3, p_shopName = Some ''Alice Mobiles'',
            p_shopType = Some ''mobile'', p_brand = Some ''Acme'', p_model = Some ''A1'',
            p_productType = None, p_color = Some ''black'', p_price = Some 100,
            p_image = Some ''a1.jpg'', p_storage = Some ''64GB'', p_ram = Some ''4GB''\<rparr>"

definition fridge :: product where
  "fridge = \<lparr>p_id = 6, p_sellerId = 4, p_shopId = 4, p_shopName = Some ''Bob Home'',
             p_shopType = Some ''appliance'', p_brand = Some ''Cool'', p_model = Some ''F2'',
             p_productType = Some ''Fridge'', p_color = Some ''white'', p_price = Some 300,
             p_image = None, p_storage = None, p_ram = None\<rparr>"

definition shop_db :: db where
  "shop_db = \<lparr>users = [alice, bob, carol], sellers = [alice_shop, bob_shop],
              products = [phone, fridge], next_oid = 7\<rparr>"

definition shop_db_rev1 :: db where
  "shop_db_rev1 = \<lparr>users = [alice, bob, carol], sellers = [alice_shop, bob_shop],
                   products = [phone\<lparr>p_sellerId := 0\<rparr>, fridge\<lparr>p_sellerId := 1\<rparr>],
                   next_oid = 7\<rparr>"

text \<open>The server's key, and the cookies Alice, Bob and Carol hold after logging in to
  revision 2 at second 1000.\<close>

definition key :: string where
  "key = ''s3cret''"

definition alice_cookie :: "token option" where
  "alice_cookie = Some (auth_google_callback_rev2 key 1000 alice)"

definition bob_cookie :: "token option" where
  "bob_cookie = Some (auth_google_callback_rev2 key 1000 bob)"

definition carol_cookie :: "token option" where
  "carol_cookie = Some (auth_google_callback_rev2 key 1000 carol)"

definition no_form :: product_form where
  "no_form = \<lparr>b_brand = Undefined, b_model = Undefined, b_productType = Undefined,
               b_color = Undefined, b_storage = Undefined, b_ram = Undefined,
               b_price = Undefined\<rparr>"

text \<open>The store after Alice's user record was removed from the collection (no route of
  the server does that), and the form Carol sends to open a shop.\<close>

definition orphan_db :: db where
  "orphan_db = shop_db\<lparr>users := [bob, carol]\<rparr>"

definition shop_form :: seller_form where
  "shop_form = \<lparr>f_shopName = Given ''Carol Crafts'', f_shopType = Given ''craft'',
                f_shopLocation = Undefined\<rparr>"

text \<open>The document the registration route hands to \<^verbatim>\<open>Seller.create\<close> (lines 178-186,
  555-563), with the \<^verbatim>\<open>_id\<close> it gets in store \<open>d\<close>; and Carol's shop, as her form
  creates it in \<open>shop_db\<close>.\<close>

definition new_seller ::
  "db \<Rightarrow> user \<Rightarrow> string \<Rightarrow> string \<Rightarrow> string option \<Rightarrow> string field \<Rightarrow> seller" where
  "new_seller d u sn st file loc =
     \<lparr>s_id = next_oid d, s_userId = u_id u, s_name = u_name u, s_email = u_email u,
      s_shopName = sn, s_shopType = st, s_shopPhoto = file, s_shopLocation = to_opt loc\<rparr>"

definition carol_shop :: seller where
  "carol_shop = \<lparr>s_id = 7, s_userId = 2, s_name = ''Carol'', s_email = ''c@x.org'',
                 s_shopName = ''Carol Crafts'', s_shopType = ''craft'',
                 s_shopPhoto = None, s_shopLocation = None\<rparr>"

text \<open>\<open>shop_db\<close> after Carol's registration went through, and after a registration of
  hers whose \<^verbatim>\<open>Seller.create\<close> was done and whose \<^verbatim>\<open>user.save\<close> was not.\<close>

definition carol_db :: db where
  "carol_db = shop_db\<lparr>users := [alice, bob, carol\<lparr>u_role := ''seller''\<rparr>],
                      sellers := [alice_shop, bob_shop, carol_shop], next_oid := 8\<rparr>"

definition carol_half_db :: db where
  "carol_half_db = shop_db\<lparr>sellers := [alice_shop, bob_shop, carol_shop], next_oid := 8\<rparr>"


text \<open>A request that names the price only.\<close>

definition price_form :: product_form where
  "price_form = no_form\<lparr>b_price := Given 120\<rparr>"

text \<open>The stores revision 2 can reach from the empty one: by a login, a seller
  registration, and adding, updating or deleting a product, each with any request and
  any store fault. (The other routes leave the store as it is.)\<close>

inductive reach_rev2 :: "db \<Rightarrow> bool" where
  init: "reach_rev2 empty_db"
| login: "reach_rev2 d \<Longrightarrow> reach_rev2 (fst (google_strategy f d prof))"
| register:
    "reach_rev2 d \<Longrightarrow> reach_rev2 (fst (post_seller_register f secret now d cookie sform file))"
| add:
    "reach_rev2 d \<Longrightarrow> reach_rev2 (fst (post_product_add_rev2 f secret now d cookie form file))"
| update:
    "reach_rev2 d \<Longrightarrow>
     reach_rev2 (fst (put_product_update_rev2 f secret now d cookie pid form file))"
| delete:
    "reach_rev2 d \<Longrightarrow> reach_rev2 (fst (delete_product_delete_rev2 f secret now d cookie pid))"

text \<open>Every product's owning-seller id is the \<^verbatim>\<open>_id\<close> of a Seller record of the store;
  and the ids in use are below \<open>next_oid\<close>, no user sharing one with a seller.\<close>

definition seller_refs :: "db \<Rightarrow> bool" where
  "seller_refs d = (\<forall>p \<in> set (products d). \<exists>s \<in> set (sellers d). s_id s = p_sellerId p)"

definition oids_apart :: "db \<Rightarrow> bool" where
  "oids_apart d =
     ((\<forall>u \<in> set (users d). u_id u < next_oid d) \<and>
      (\<forall>s \<in> set (sellers d). s_id s < next_oid d) \<and>
      (\<forall>u \<in> set (users d). \<forall>s \<in> set (sellers d). u_id u \<noteq> s_id s))"

definition store_inv :: "db \<Rightarrow> bool" where
  "store_inv d = (seller_refs d \<and> oids_apart d)"

text \<open>The product Alice adds with an empty form, as revision 1 and as revision 2 store
  it.\<close>

definition blank_rev1 :: product where
  "blank_rev1 = \<lparr>p_id = 7, p_sellerId = 0, p_shopId = 3, p_shopName = Some ''Alice Mobiles'',
                 p_shopType = Some ''mobile'', p_brand = None, p_model = None,
                 p_productType = None, p_color = None, p_price = None, p_image = None,
                 p_storage = None, p_ram = None\<rparr>"

definition blank_rev2 :: product where
  "blank_rev2 = blank_rev1\<lparr>p_sellerId := 3\<rparr>"

section \<open>Properties\<close>

lemmas ex_defs = alice_def bob_def carol_def alice_shop_def bob_shop_def phone_def fridge_def
  shop_db_def shop_db_rev1_def key_def alice_cookie_def bob_cookie_def carol_cookie_def
  no_form_def auth_google_callback_rev2_def auth_google_callback_rev1_def jwt_sign_def
  orphan_db_def shop_form_def carol_shop_def carol_db_def carol_half_db_def
  price_form_def blank_rev1_def blank_rev2_def

lemmas store_defs = User_findById_def User_findOne_def Seller_findOne_def Product_findById_def
  throws_def reply_def server_error_def unauthorized_def access_denied_def

subsection \<open>Ownership gate\<close>



lemmas handler_defs = post_seller_register_def get_seller_me_def post_product_add_rev1_def
  post_product_add_rev2_def get_products_my_rev1_def get_products_my_rev2_def
  put_product_update_rev1_def put_product_update_rev2_def delete_product_delete_rev1_def
  delete_product_delete_rev2_def get_profile_def

subsection \<open>A credential whose subject is gone\<close>

text \<open>
  The claim C2 as the spec has it: when the cookie verifies and its subject id resolves
  to no User record, every route that needs an identity answers 401. It fails. Alice's
  cookie verifies, her record is gone: registration answers 404, adding a product 403,
  and \<^verbatim>\<open>/profile\<close> answers 200 with \<^verbatim>\<open>user: null\<close>.
\<close>

theorem unresolved_subject_counterexample:
  "jwt_verify (auth_google_callback_rev2 key 1000 alice) key 2000
     = Inr \<lparr>pl_id = 0, pl_role = Some ''seller''\<rparr> \<and>
   User_findById orphan_db 0 = None \<and>
   post_seller_register None key 2000 orphan_db alice_cookie shop_form None
     = (orphan_db, reply 404 (Message ''User not found'')) \<and>
   post_product_add_rev2 None key 2000 orphan_db alice_cookie no_form None
     = (orphan_db, reply 403 (Message ''Access denied'')) \<and>
   get_profile None key 2000 orphan_db alice_cookie
     = (orphan_db, reply 200 (UserJson None))"
  by (simp add: handler_defs ex_defs store_defs)

text \<open>
  C2, amended. When the cookie verifies, its subject id resolves to no User record and
  \<^verbatim>\<open>User.findById\<close> does not throw, seller registration answers 404
  (\<^verbatim>\<open>User not found\<close>), and \<^verbatim>\<open>/seller/me\<close>, adding, updating and deleting a product and
  \<^verbatim>\<open>/products/my\<close> answer 403 (\<^verbatim>\<open>Access denied\<close>), in both revisions; none of them
  changes the store. (\<^verbatim>\<open>/profile\<close> has no check of the looked-up user at all and is left
  out.)
\<close>

theorem unresolved_subject:
  assumes "cookie = Some tok" and "\<not> falsy tok"
    and "jwt_verify tok secret now = Inr decoded"
    and "User_findById d (pl_id decoded) = None"
    and "\<not> throws f 1"
  shows "post_seller_register f secret now d cookie sform file
           = (d, reply 404 (Message ''User not found'')) \<and>
         get_seller_me f secret now d cookie = (d, reply 403 (Message ''Access denied'')) \<and>
         post_product_add_rev1 f secret now d cookie form file
           = (d, reply 403 (Message ''Access denied'')) \<and>
         post_product_add_rev2 f secret now d cookie form file
           = (d, reply 403 (Message ''Access denied'')) \<and>
         get_products_my_rev1 f secret now d cookie
           = (d, reply 403 (Message ''Access denied'')) \<and>
         get_products_my_rev2 f secret now d cookie
           = (d, reply 403 (Message ''Access denied'')) \<and>
         put_product_update_rev1 f secret now d cookie pid form file
           = (d, reply 403 (Message ''Access denied'')) \<and>
         put_product_update_rev2 f secret now d cookie pid form file
           = (d, reply 403 (Message ''Access denied'')) \<and>
         delete_product_delete_rev1 f secret now d cookie pid
           = (d, reply 403 (Message ''Access denied'')) \<and>
         delete_product_delete_rev2 f secret now d cookie pid
           = (d, reply 403 (Message ''Access denied''))"
  using assms by (simp add: handler_defs access_denied_def)

theorem unresolved_subject_witness:
  "alice_cookie = Some (auth_google_callback_rev2 key 1000 alice) \<and>
   \<not> falsy (auth_google_callback_rev2 key 1000 alice) \<and>
   jwt_verify (auth_google_callback_rev2 key 1000 alice) key 2000
     = Inr \<lparr>pl_id = 0, pl_role = Some ''seller''\<rparr> \<and>
   User_findById orphan_db 0 = None \<and>
   \<not> throws None 1 \<and>
   status (snd (post_seller_register None key 2000 orphan_db alice_cookie shop_form None)) = 404 \<and>
   status (snd (get_seller_me None key 2000 orphan_db alice_cookie)) = 403 \<and>
   status (snd (put_product_update_rev2 None key 2000 orphan_db alice_cookie 5 no_form None)) = 403 \<and>
   fst (delete_product_delete_rev2 None key 2000 orphan_db alice_cookie 5) = orphan_db"
proof -
  have h1: "alice_cookie = Some (auth_google_callback_rev2 key 1000 alice)"
    by (simp add: alice_cookie_def)
  have h2: "\<not> falsy (auth_google_callback_rev2 key 1000 alice)"
    by (simp add: auth_google_callback_rev2_def jwt_sign_def)
  have h3: "jwt_verify (auth_google_callback_rev2 key 1000 alice) key 2000
     = Inr \<lparr>pl_id = 0, pl_role = Some ''seller''\<rparr>"
    by (simp add: auth_google_callback_rev2_def jwt_sign_def alice_def)
  have h4: "User_findById orphan_db (pl_id \<lparr>pl_id = 0, pl_role = Some ''seller''\<rparr>) = None"
    by (simp add: ex_defs store_defs)
  have h5: "\<not> throws None 1"
    by (simp add: throws_def)
  note g = unresolved_subject [OF h1 h2 h3 h4 h5, of shop_form None no_form 5]
  from g h1 h2 h3 h4 h5 show ?thesis by (simp add: reply_def)
qed

subsection \<open>Unknown product id\<close>



subsection \<open>Seller registration\<close>

text \<open>Facts about \<open>find\<close> on a collection that grows at the end or is rewritten in
  place.\<close>

lemma find_holds: "find P xs = Some x \<Longrightarrow> P x"
  by (induction xs) (auto split: if_splits)

lemma find_append_last: "find P xs = None \<Longrightarrow> P y \<Longrightarrow> find P (xs @ [y]) = Some y"
  by (induction xs) (auto split: if_splits)

lemma find_append_some: "P y \<Longrightarrow> \<exists>z. find P (xs @ [y]) = Some z"
  by (induction xs) auto

lemma find_map_replace:
  "find P xs = Some x \<Longrightarrow> P y \<Longrightarrow> find P (map (\<lambda>v. if P v then y else v) xs) = Some y"
  by (induction xs) (auto split: if_splits)

lemma User_findById_id: "User_findById d i = Some u \<Longrightarrow> u_id u = i"
  unfolding User_findById_def by (drule find_holds) simp

lemma User_findById_user_save:
  assumes "User_findById d i = Some u" and "u_id u' = i"
  shows "User_findById (user_save d u') i = Some u'"
proof -
  have "(\<lambda>v. if u_id v = u_id u' then u' else v) = (\<lambda>v. if u_id v = i then u' else v)"
    using assms(2) by simp
  then show ?thesis
    using assms find_map_replace [of "\<lambda>v. u_id v = i" "users d" u u']
    by (simp add: User_findById_def user_save_def)
qed

text \<open>
  C5, amended. Seller registration makes two store writes one after the other,
  \<^verbatim>\<open>Seller.create\<close> and then \<^verbatim>\<open>user.save\<close>, with nothing that undoes the first when the
  second fails. For a user with no Seller record and a form whose \<^verbatim>\<open>shopName\<close> and
  \<^verbatim>\<open>shopType\<close> are not empty: when no store call throws, the answer is 200, the Seller
  record is added and the user's role is \<^verbatim>\<open>seller\<close>; when \<^verbatim>\<open>user.save\<close> throws, the answer
  is 500, the Seller record is added all the same and the users are as they were. A
  registration that answers 500 for any other reason leaves the whole store unchanged.
\<close>

theorem registration_outcomes:
  "(cookie = Some tok \<and> \<not> falsy tok \<and> jwt_verify tok secret now = Inr decoded \<and>
    User_findById d (pl_id decoded) = Some u \<and> Seller_findOne d (u_id u) = None \<and>
    f_shopName form = Given sn \<and> sn \<noteq> [] \<and> f_shopType form = Given st \<and> st \<noteq> [] \<longrightarrow>
      status (snd (post_seller_register None secret now d cookie form file)) = 200 \<and>
      sellers (fst (post_seller_register None secret now d cookie form file))
        = sellers d @ [new_seller d u sn st file (f_shopLocation form)] \<and>
      User_findById (fst (post_seller_register None secret now d cookie form file)) (u_id u)
        = Some (u\<lparr>u_role := ''seller''\<rparr>) \<and>
      status (snd (post_seller_register (Some 4) secret now d cookie form file)) = 500 \<and>
      sellers (fst (post_seller_register (Some 4) secret now d cookie form file))
        = sellers d @ [new_seller d u sn st file (f_shopLocation form)] \<and>
      users (fst (post_seller_register (Some 4) secret now d cookie form file)) = users d)
   \<and> (status (snd (post_seller_register f secret now d cookie form file)) = 500 \<and> f \<noteq> Some 4 \<longrightarrow>
        fst (post_seller_register f secret now d cookie form file) = d)"
proof (intro conjI impI)
  assume a: "cookie = Some tok \<and> \<not> falsy tok \<and> jwt_verify tok secret now = Inr decoded \<and>
    User_findById d (pl_id decoded) = Some u \<and> Seller_findOne d (u_id u) = None \<and>
    f_shopName form = Given sn \<and> sn \<noteq> [] \<and> f_shopType form = Given st \<and> st \<noteq> []"
  let ?s = "new_seller d u sn st file (f_shopLocation form)"
  let ?d1 = "d\<lparr>sellers := sellers d @ [?s], next_oid := Suc (next_oid d)\<rparr>"
  have cr: "Seller_create d (u_id u) (u_name u) (u_email u) (f_shopName form) (f_shopType form)
              file (f_shopLocation form) = Some (?d1, ?s)"
    using a by (simp add: Seller_create_def new_seller_def Let_def)
  have ok: "post_seller_register None secret now d cookie form file
      = (user_save ?d1 (u\<lparr>u_role := ''seller''\<rparr>),
         reply 200 (MessageSeller ''Seller registered successfully'' ?s))"
    using a cr by (simp add: post_seller_register_def throws_def)
  have part: "post_seller_register (Some 4) secret now d cookie form file = (?d1, server_error)"
    using a cr by (simp add: post_seller_register_def throws_def)
  show "status (snd (post_seller_register None secret now d cookie form file)) = 200"
    by (simp add: ok reply_def)
  show "sellers (fst (post_seller_register None secret now d cookie form file)) = sellers d @ [?s]"
    by (simp add: ok user_save_def)
  have "User_findById ?d1 (u_id u) = Some u"
    using a User_findById_id [of d "pl_id decoded" u] by (simp add: User_findById_def)
  then show "User_findById (fst (post_seller_register None secret now d cookie form file)) (u_id u)
        = Some (u\<lparr>u_role := ''seller''\<rparr>)"
    by (simp add: ok User_findById_user_save)
  show "status (snd (post_seller_register (Some 4) secret now d cookie form file)) = 500"
    by (simp add: part server_error_def reply_def)
  show "sellers (fst (post_seller_register (Some 4) secret now d cookie form file)) = sellers d @ [?s]"
    by (simp add: part)
  show "users (fst (post_seller_register (Some 4) secret now d cookie form file)) = users d"
    by (simp add: part)
next
  assume "status (snd (post_seller_register f secret now d cookie form file)) = 500 \<and> f \<noteq> Some 4"
  then show "fst (post_seller_register f secret now d cookie form file) = d"
    by (auto simp: post_seller_register_def throws_def reply_def unauthorized_def server_error_def
        split: option.splits sum.splits if_splits prod.splits)
qed


text \<open>
  The claim C5 as the spec has it: registration is atomic, and a registration that
  answers 500 leaves the Seller Directory and the role unchanged. It fails when
  \<^verbatim>\<open>user.save\<close> throws: Carol's request answers 500, her shop is in the Seller
  collection, her role is still \<^verbatim>\<open>customer\<close>.
\<close>

theorem registration_outcomes_counterexample:
  "Seller_findOne shop_db (u_id carol) = None \<and>
   post_seller_register (Some 4) key 2000 shop_db carol_cookie shop_form None
     = (carol_half_db, reply 500 (Message ''Server error'')) \<and>
   sellers carol_half_db = sellers shop_db @ [carol_shop] \<and>
   User_findById carol_half_db 2 = Some carol \<and>
   u_role carol = ''customer''"
  by (simp add: post_seller_register_def Seller_create_def Let_def ex_defs store_defs)

text \<open>Carol's registration in \<open>shop_db\<close>: with no fault, with \<^verbatim>\<open>user.save\<close> throwing, and with
  \<^verbatim>\<open>Seller.create\<close> throwing.\<close>

theorem registration_outcomes_witness:
  "carol_cookie = Some (auth_google_callback_rev2 key 1000 carol) \<and>
   \<not> falsy (auth_google_callback_rev2 key 1000 carol) \<and>
   jwt_verify (auth_google_callback_rev2 key 1000 carol) key 2000
     = Inr \<lparr>pl_id = 2, pl_role = Some ''customer''\<rparr> \<and>
   User_findById shop_db 2 = Some carol \<and>
   Seller_findOne shop_db (u_id carol) = None \<and>
   f_shopName shop_form = Given ''Carol Crafts'' \<and> ''Carol Crafts'' \<noteq> [] \<and>
   f_shopType shop_form = Given ''craft'' \<and> ''craft'' \<noteq> [] \<and>
   new_seller shop_db carol ''Carol Crafts'' ''craft'' None (f_shopLocation shop_form)
     = carol_shop \<and>
   status (snd (post_seller_register None key 2000 shop_db carol_cookie shop_form None)) = 200 \<and>
   sellers (fst (post_seller_register None key 2000 shop_db carol_cookie shop_form None))
     = [alice_shop, bob_shop, carol_shop] \<and>
   User_findById (fst (post_seller_register None key 2000 shop_db carol_cookie shop_form None)) 2
     = Some (carol\<lparr>u_role := ''seller''\<rparr>) \<and>
   status (snd (post_seller_register (Some 4) key 2000 shop_db carol_cookie shop_form None)) = 500 \<and>
   sellers (fst (post_seller_register (Some 4) key 2000 shop_db carol_cookie shop_form None))
     = [alice_shop, bob_shop, carol_shop] \<and>
   users (fst (post_seller_register (Some 4) key 2000 shop_db carol_cookie shop_form None))
     = [alice, bob, carol] \<and>
   status (snd (post_seller_register (Some 3) key 2000 shop_db carol_cookie shop_form None)) = 500 \<and>
   Some 3 \<noteq> Some (4::nat) \<and>
   fst (post_seller_register (Some 3) key 2000 shop_db carol_cookie shop_form None) = shop_db"
proof -
  have h1: "carol_cookie = Some (auth_google_callback_rev2 key 1000 carol)"
    by (simp add: carol_cookie_def)
  have h2: "\<not> falsy (auth_google_callback_rev2 key 1000 carol)"
    by (simp add: auth_google_callback_rev2_def jwt_sign_def)
  have h3: "jwt_verify (auth_google_callback_rev2 key 1000 carol) key 2000
     = Inr \<lparr>pl_id = 2, pl_role = Some ''customer''\<rparr>"
    by (simp add: auth_google_callback_rev2_def jwt_sign_def carol_def)
  have h4: "User_findById shop_db (pl_id \<lparr>pl_id = 2, pl_role = Some ''customer''\<rparr>) = Some carol"
    by (simp add: ex_defs store_defs)
  have h5: "Seller_findOne shop_db (u_id carol) = None"
    by (simp add: ex_defs store_defs)
  have h6: "f_shopName shop_form = Given ''Carol Crafts''" "''Carol Crafts'' \<noteq> []"
    "f_shopType shop_form = Given ''craft''" "''craft'' \<noteq> []"
    by (simp_all add: shop_form_def)
  have h7: "new_seller shop_db carol ''Carol Crafts'' ''craft'' None (f_shopLocation shop_form)
     = carol_shop"
    by (simp add: new_seller_def ex_defs)
  have h8: "status (snd (post_seller_register (Some 3) key 2000 shop_db carol_cookie shop_form None)) = 500"
    by (simp add: post_seller_register_def Seller_create_def Let_def ex_defs store_defs)
  have h9: "Some 3 \<noteq> Some (4::nat)"
    by simp
  note g = registration_outcomes [of carol_cookie "auth_google_callback_rev2 key 1000 carol" key
      2000 "\<lparr>pl_id = 2, pl_role = Some ''customer''\<rparr>" shop_db carol shop_form
      "''Carol Crafts''" "''craft''" None "Some 3"]
  have u: "users shop_db = [alice, bob, carol]" "sellers shop_db = [alice_shop, bob_shop]"
    "u_id carol = 2"
    by (simp_all add: shop_db_def carol_def)
  from g h1 h2 h3 h4 h5 h6 h7 h8 h9 u show ?thesis by simp
qed

text \<open>What a registration that created the Seller record leaves behind.\<close>

lemma Seller_create_Some:
  assumes "Seller_create d uid nm em sn st ph loc = Some (d', s)"
  shows "s_userId s = uid" and "sellers d' = sellers d @ [s]" and "users d' = users d"
    and "products d' = products d"
  using assms
  by (auto simp: Seller_create_def Let_def split: field.splits if_splits)

lemma Seller_findOne_user_save: "Seller_findOne (user_save d u) i = Seller_findOne d i"
  by (simp add: Seller_findOne_def user_save_def)

lemma register_created:
  assumes "post_seller_register f secret now d cookie form file = (d1, r1)"
    and "status r1 = 200 \<or> sellers d1 \<noteq> sellers d"
    and "cookie = Some tok" and "jwt_verify tok secret now = Inr decoded"
  shows "\<exists>u d' s. User_findById d (pl_id decoded) = Some u \<and>
           Seller_create d (u_id u) (u_name u) (u_email u) (f_shopName form) (f_shopType form)
             file (f_shopLocation form) = Some (d', s) \<and>
           (d1 = d' \<or> d1 = user_save d' (u\<lparr>u_role := ''seller''\<rparr>))"
  using assms
  by (auto simp: post_seller_register_def throws_def reply_def unauthorized_def server_error_def
      split: option.splits if_splits prod.splits)

text \<open>
  C6. A first registration created the Seller record of a user: it answered 200, or it
  came as far as \<^verbatim>\<open>Seller.create\<close> (the store then is the one a request meets between
  the two writes of the first, role not yet promoted). A second registration whose
  cookie verifies to the same subject id, with no store call throwing, answers 400 and
  leaves the store as it is: no second Seller record.
\<close>

theorem second_registration_conflict:
  assumes first: "post_seller_register f1 secret now1 d cookie1 form1 file1 = (d1, r1)"
    and created: "status r1 = 200 \<or> sellers d1 \<noteq> sellers d"
    and c1: "cookie1 = Some tok1" "jwt_verify tok1 secret now1 = Inr decoded1"
    and c2: "cookie2 = Some tok2" "\<not> falsy tok2" "jwt_verify tok2 secret now2 = Inr decoded2"
    and same: "pl_id decoded2 = pl_id decoded1"
  shows "post_seller_register None secret now2 d1 cookie2 form2 file2
           = (d1, reply 400 (Message ''You are already a seller''))"
proof -
  from register_created [OF first created c1]
  obtain u d' s where u: "User_findById d (pl_id decoded1) = Some u"
    and cr: "Seller_create d (u_id u) (u_name u) (u_email u) (f_shopName form1)
               (f_shopType form1) file1 (f_shopLocation form1) = Some (d', s)"
    and d1: "d1 = d' \<or> d1 = user_save d' (u\<lparr>u_role := ''seller''\<rparr>)"
    by blast
  have uid: "u_id u = pl_id decoded1"
    using u by (rule User_findById_id)
  have u': "User_findById d' (pl_id decoded1) = Some u"
    using u Seller_create_Some(3) [OF cr] by (simp add: User_findById_def)
  obtain z where z: "Seller_findOne d' (pl_id decoded1) = Some z"
    using Seller_create_Some(1,2) [OF cr] uid
      find_append_some [of "\<lambda>s. s_userId s = pl_id decoded1" s "sellers d"]
    by (auto simp: Seller_findOne_def)
  from d1 show ?thesis
  proof
    assume "d1 = d'"
    with u' z uid c2 same show ?thesis
      by (simp add: post_seller_register_def throws_def)
  next
    assume e: "d1 = user_save d' (u\<lparr>u_role := ''seller''\<rparr>)"
    have "User_findById d1 (pl_id decoded1) = Some (u\<lparr>u_role := ''seller''\<rparr>)"
      unfolding e using u' uid by (simp add: User_findById_user_save)
    moreover have "Seller_findOne d1 (pl_id decoded1) = Some z"
      unfolding e using z by (simp add: Seller_findOne_user_save)
    ultimately show ?thesis
      using uid c2 same by (simp add: post_seller_register_def throws_def)
  qed
qed


text \<open>Carol registers a second time, after a first registration that went through and
  after one whose role write failed.\<close>

theorem second_registration_conflict_witness:
  "post_seller_register None key 2000 shop_db carol_cookie shop_form None
     = (carol_db, reply 200 (MessageSeller ''Seller registered successfully'' carol_shop)) \<and>
   status (reply 200 (MessageSeller ''Seller registered successfully'' carol_shop)) = 200 \<and>
   post_seller_register (Some 4) key 2000 shop_db carol_cookie shop_form None
     = (carol_half_db, server_error) \<and>
   sellers carol_half_db \<noteq> sellers shop_db \<and>
   carol_cookie = Some (auth_google_callback_rev2 key 1000 carol) \<and>
   \<not> falsy (auth_google_callback_rev2 key 1000 carol) \<and>
   jwt_verify (auth_google_callback_rev2 key 1000 carol) key 2000
     = Inr \<lparr>pl_id = 2, pl_role = Some ''customer''\<rparr> \<and>
   jwt_verify (auth_google_callback_rev2 key 1000 carol) key 3000
     = Inr \<lparr>pl_id = 2, pl_role = Some ''customer''\<rparr> \<and>
   post_seller_register None key 3000 carol_db carol_cookie shop_form None
     = (carol_db, reply 400 (Message ''You are already a seller'')) \<and>
   post_seller_register None key 3000 carol_half_db carol_cookie shop_form None
     = (carol_half_db, reply 400 (Message ''You are already a seller''))"
proof -
  have f1: "post_seller_register None key 2000 shop_db carol_cookie shop_form None
     = (carol_db, reply 200 (MessageSeller ''Seller registered successfully'' carol_shop))"
    by (simp add: post_seller_register_def Seller_create_def Let_def user_save_def
        ex_defs store_defs)
  have s1: "status (reply 200 (MessageSeller ''Seller registered successfully'' carol_shop)) = 200"
    by (simp add: reply_def)
  have f2: "post_seller_register (Some 4) key 2000 shop_db carol_cookie shop_form None
     = (carol_half_db, server_error)"
    by (simp add: post_seller_register_def Seller_create_def Let_def ex_defs store_defs)
  have s2: "sellers carol_half_db \<noteq> sellers shop_db"
    by (simp add: carol_half_db_def shop_db_def)
  have h1: "carol_cookie = Some (auth_google_callback_rev2 key 1000 carol)"
    by (simp add: carol_cookie_def)
  have h2: "\<not> falsy (auth_google_callback_rev2 key 1000 carol)"
    by (simp add: auth_google_callback_rev2_def jwt_sign_def)
  have h3: "jwt_verify (auth_google_callback_rev2 key 1000 carol) key 2000
     = Inr \<lparr>pl_id = 2, pl_role = Some ''customer''\<rparr>"
    "jwt_verify (auth_google_callback_rev2 key 1000 carol) key 3000
     = Inr \<lparr>pl_id = 2, pl_role = Some ''customer''\<rparr>"
    by (simp_all add: auth_google_callback_rev2_def jwt_sign_def carol_def)
  note a = second_registration_conflict [OF f1 disjI1 [OF s1] h1 h3(1) h1 h2 h3(2) refl,
      of shop_form None]
  note b = second_registration_conflict [OF f2 disjI2 [OF s2] h1 h3(1) h1 h2 h3(2) refl,
      of shop_form None]
  from a b f1 s1 f2 s2 h1 h2 h3 show ?thesis by simp
qed

subsection \<open>Partial update\<close>














subsection \<open>Public listing\<close>

text \<open>The listing is every product of the store, newest \<^verbatim>\<open>_id\<close> first.\<close>

lemma Product_find_all: "mset (Product_find d) = mset (products d)"
  by (simp add: Product_find_def)

text \<open>
  The claim C8 as the spec has it: \<^verbatim>\<open>GET /products\<close> with no cookie returns the listing
  together with \<^verbatim>\<open>userRole = "customer"\<close>. It fails in revision 1, whose route sends
  \<^verbatim>\<open>{ products }\<close> and nothing else.
\<close>

theorem public_listing_counterexample:
  "get_products_rev1 None key 2000 shop_db None
     = (shop_db, reply 200 (ProductsJson [fridge, phone])) \<and>
   body (snd (get_products_rev1 None key 2000 shop_db None))
     \<noteq> ProductsRoleJson [fridge, phone] ''customer''"
  by (simp add: get_products_rev1_def Product_find_def ex_defs store_defs)

text \<open>
  C8, amended. In revision 2, \<^verbatim>\<open>GET /products\<close> with no cookie, with an empty cookie or
  with a cookie that fails verification (expired, malformed, wrongly signed) answers
  200 with the full listing and \<^verbatim>\<open>userRole = "customer"\<close>, when \<^verbatim>\<open>Product.find\<close> does not
  throw. The listing holds every product of the store. In revision 1 the route ignores
  the cookie and answers 200 with the full listing and no \<^verbatim>\<open>userRole\<close>.
\<close>

theorem public_listing:
  "(cookie = None \<or> cookie = Some tok \<and> (falsy tok \<or> jwt_verify tok secret now = Inl e) \<longrightarrow>
      get_products_rev2 None secret now d cookie
        = (d, reply 200 (ProductsRoleJson (Product_find d) ''customer''))) \<and>
   mset (Product_find d) = mset (products d) \<and>
   get_products_rev1 None secret now d cookie = (d, reply 200 (ProductsJson (Product_find d)))"
  by (auto simp: get_products_rev2_def get_products_rev1_def userRole_of_def throws_def
      Product_find_all)

text \<open>The listing of \<open>shop_db\<close> with no cookie, with Alice's cookie after it
  expired, with a string that is no token, with a token signed under another key, with
  an empty cookie; and the listing in revision 1.\<close>

theorem public_listing_witness:
  "get_products_rev2 None key 2000 shop_db None
     = (shop_db, reply 200 (ProductsRoleJson [fridge, phone] ''customer'')) \<and>
   jwt_verify (auth_google_callback_rev2 key 1000 alice) key 90000 = Inl Expired \<and>
   get_products_rev2 None key 90000 shop_db alice_cookie
     = (shop_db, reply 200 (ProductsRoleJson [fridge, phone] ''customer'')) \<and>
   jwt_verify (Raw ''garbage'') key 2000 = Inl Malformed \<and>
   get_products_rev2 None key 2000 shop_db (Some (Raw ''garbage''))
     = (shop_db, reply 200 (ProductsRoleJson [fridge, phone] ''customer'')) \<and>
   jwt_verify (auth_google_callback_rev2 ''forged'' 1000 alice) key 2000 = Inl BadSignature \<and>
   get_products_rev2 None key 2000 shop_db (Some (auth_google_callback_rev2 ''forged'' 1000 alice))
     = (shop_db, reply 200 (ProductsRoleJson [fridge, phone] ''customer'')) \<and>
   falsy (Raw []) \<and>
   get_products_rev2 None key 2000 shop_db (Some (Raw []))
     = (shop_db, reply 200 (ProductsRoleJson [fridge, phone] ''customer'')) \<and>
   mset [fridge, phone] = mset (products shop_db) \<and>
   get_products_rev1 None key 2000 shop_db alice_cookie
     = (shop_db, reply 200 (ProductsJson [fridge, phone]))"
proof -
  have l: "Product_find shop_db = [fridge, phone]"
    by (simp add: Product_find_def ex_defs)
  have e1: "jwt_verify (auth_google_callback_rev2 key 1000 alice) key 90000 = Inl Expired"
    by (simp add: auth_google_callback_rev2_def jwt_sign_def)
  have e2: "jwt_verify (Raw ''garbage'') key 2000 = Inl Malformed"
    by simp
  have e3: "jwt_verify (auth_google_callback_rev2 ''forged'' 1000 alice) key 2000 = Inl BadSignature"
    by (simp add: auth_google_callback_rev2_def jwt_sign_def key_def)
  have e4: "falsy (Raw [])"
    by simp
  have c: "alice_cookie = Some (auth_google_callback_rev2 key 1000 alice)"
    by (simp add: alice_cookie_def)
  note g0 = public_listing [of None _ key 2000 _ shop_db, unfolded l]
  note g1 = public_listing [of alice_cookie "auth_google_callback_rev2 key 1000 alice" key 90000
      Expired shop_db, unfolded l]
  note g2 = public_listing [of "Some (Raw ''garbage'')" "Raw ''garbage''" key 2000
      Malformed shop_db, unfolded l]
  note g3 = public_listing [of "Some (auth_google_callback_rev2 ''forged'' 1000 alice)"
      "auth_google_callback_rev2 ''forged'' 1000 alice" key 2000 BadSignature shop_db, unfolded l]
  note g4 = public_listing [of "Some (Raw [])" "Raw []" key 2000 _ shop_db, unfolded l]
  note g5 = public_listing [of alice_cookie _ key 2000 _ shop_db, unfolded l]
  from g0 g1 g2 g3 g4 g5 e1 e2 e3 e4 c show ?thesis
    by simp
qed

subsection \<open>The role the listing reports\<close>

text \<open>
  The claim C9 as the spec has it: for every user whose role is \<^verbatim>\<open>seller\<close>,
  \<^verbatim>\<open>GET /products\<close> with that user's valid, unexpired credential returns
  \<^verbatim>\<open>userRole = "seller"\<close>. It fails for Carol: she logged in as a customer, registered her
  shop, her role in the store is \<^verbatim>\<open>seller\<close>, her cookie verifies, and the listing reports
  \<^verbatim>\<open>customer\<close>, the role signed into the cookie at login.
\<close>

theorem reported_role_counterexample:
  "User_findById carol_db 2 = Some (carol\<lparr>u_role := ''seller''\<rparr>) \<and>
   u_role (carol\<lparr>u_role := ''seller''\<rparr>) = ''seller'' \<and>
   carol_cookie = Some (auth_google_callback_rev2 key 1000 carol) \<and>
   jwt_verify (auth_google_callback_rev2 key 1000 carol) key 3000
     = Inr \<lparr>pl_id = 2, pl_role = Some ''customer''\<rparr> \<and>
   get_products_rev2 None key 3000 carol_db carol_cookie
     = (carol_db, reply 200 (ProductsRoleJson [fridge, phone] ''customer''))"
  by (simp add: get_products_rev2_def userRole_of_def Product_find_def ex_defs store_defs)

text \<open>
  C9, amended. \<^verbatim>\<open>GET /products\<close> of revision 2 reports the role signed into the
  credential, whatever the store says of the user now. For a credential that the login
  callback of revision 2 issued at \<open>t0\<close> to a user whose role was \<^verbatim>\<open>seller\<close> then, and any
  time before \<open>t0 + 86400\<close>, it reports \<^verbatim>\<open>seller\<close>; in general it reports the role of the
  user record the credential was issued for. A credential issued by revision 1 carries
  no role and is reported as \<^verbatim>\<open>customer\<close>.
\<close>

theorem reported_role:
  assumes "now < t0 + 86400"
  shows "(u_role u = ''seller'' \<longrightarrow>
            get_products_rev2 None secret now d (Some (auth_google_callback_rev2 secret t0 u))
              = (d, reply 200 (ProductsRoleJson (Product_find d) ''seller''))) \<and>
         (u_role u \<noteq> [] \<longrightarrow>
            get_products_rev2 None secret now d (Some (auth_google_callback_rev2 secret t0 u))
              = (d, reply 200 (ProductsRoleJson (Product_find d) (u_role u)))) \<and>
         get_products_rev2 None secret now d (Some (auth_google_callback_rev1 secret t0 u))
           = (d, reply 200 (ProductsRoleJson (Product_find d) ''customer''))"
  using assms
  by (auto simp: get_products_rev2_def userRole_of_def throws_def auth_google_callback_rev2_def
      auth_google_callback_rev1_def jwt_sign_def)

text \<open>Alice's, Carol's and a revision 1 cookie of Alice's, in the store where Carol is
  a seller.\<close>

theorem reported_role_witness:
  "(2000::nat) < 1000 + 86400 \<and> u_role alice = ''seller'' \<and> u_role carol \<noteq> [] \<and>
   get_products_rev2 None key 2000 carol_db alice_cookie
     = (carol_db, reply 200 (ProductsRoleJson [fridge, phone] ''seller'')) \<and>
   get_products_rev2 None key 2000 carol_db carol_cookie
     = (carol_db, reply 200 (ProductsRoleJson [fridge, phone] ''customer'')) \<and>
   get_products_rev2 None key 2000 carol_db (Some (auth_google_callback_rev1 key 1000 alice))
     = (carol_db, reply 200 (ProductsRoleJson [fridge, phone] ''customer''))"
proof -
  have t: "(2000::nat) < 1000 + 86400"
    by simp
  have l: "Product_find carol_db = [fridge, phone]"
    by (simp add: Product_find_def ex_defs)
  have r: "u_role alice = ''seller''" "u_role carol \<noteq> []" "u_role carol = ''customer''"
    by (simp_all add: alice_def carol_def)
  have c: "alice_cookie = Some (auth_google_callback_rev2 key 1000 alice)"
    "carol_cookie = Some (auth_google_callback_rev2 key 1000 carol)"
    by (simp_all add: alice_cookie_def carol_cookie_def)
  note a = reported_role [OF t, of alice key carol_db, unfolded l]
  note b = reported_role [OF t, of carol key carol_db, unfolded l]
  from a b t r c show ?thesis
    by simp
qed

subsection \<open>Round trip of a credential\<close>

text \<open>
  C10. A credential issued for user \<open>u\<close> at second \<open>t0\<close> by the login callback (either
  revision) verifies, at any second before \<open>t0 + 86400\<close>, to a payload whose id is
  \<open>u\<close>'s \<^verbatim>\<open>_id\<close>, and \<^verbatim>\<open>/profile\<close> then answers with \<open>u\<close>'s record when the store has it;
  from second \<open>t0 + 86400\<close> on, verification fails with \<open>Expired\<close> and \<^verbatim>\<open>/profile\<close>
  answers 401.
\<close>

theorem credential_round_trip:
  "(t < t0 + 86400 \<longrightarrow>
      jwt_verify (auth_google_callback_rev2 secret t0 u) secret t
        = Inr \<lparr>pl_id = u_id u, pl_role = Some (u_role u)\<rparr> \<and>
      jwt_verify (auth_google_callback_rev1 secret t0 u) secret t
        = Inr \<lparr>pl_id = u_id u, pl_role = None\<rparr> \<and>
      (User_findById d (u_id u) = Some u \<longrightarrow>
         get_profile None secret t d (Some (auth_google_callback_rev2 secret t0 u))
           = (d, reply 200 (UserJson (Some u))))) \<and>
   (t0 + 86400 \<le> t \<longrightarrow>
      jwt_verify (auth_google_callback_rev2 secret t0 u) secret t = Inl Expired \<and>
      jwt_verify (auth_google_callback_rev1 secret t0 u) secret t = Inl Expired \<and>
      get_profile None secret t d (Some (auth_google_callback_rev2 secret t0 u))
        = (d, reply 401 (Message ''Unauthorized'')))"
  by (simp add: auth_google_callback_rev2_def auth_google_callback_rev1_def jwt_sign_def
      get_profile_def throws_def unauthorized_def)

text \<open>Alice's cookie, issued at second 1000, one second before and at the end of its
  lifetime.\<close>

theorem credential_round_trip_witness:
  "(87399::nat) < 1000 + 86400 \<and>
   jwt_verify (auth_google_callback_rev2 key 1000 alice) key 87399
     = Inr \<lparr>pl_id = 0, pl_role = Some ''seller''\<rparr> \<and>
   User_findById shop_db (u_id alice) = Some alice \<and>
   get_profile None key 87399 shop_db alice_cookie = (shop_db, reply 200 (UserJson (Some alice))) \<and>
   (1000::nat) + 86400 \<le> 87400 \<and>
   jwt_verify (auth_google_callback_rev2 key 1000 alice) key 87400 = Inl Expired \<and>
   jwt_verify (auth_google_callback_rev1 key 1000 alice) key 87400 = Inl Expired \<and>
   get_profile None key 87400 shop_db alice_cookie
     = (shop_db, reply 401 (Message ''Unauthorized''))"
proof -
  have t: "(87399::nat) < 1000 + 86400" "(1000::nat) + 86400 \<le> 87400"
    by simp_all
  have u: "User_findById shop_db (u_id alice) = Some alice"
    by (simp add: ex_defs store_defs)
  have r: "u_id alice = 0" "u_role alice = ''seller''"
    by (simp_all add: alice_def)
  have c: "alice_cookie = Some (auth_google_callback_rev2 key 1000 alice)"
    by (simp add: alice_cookie_def)
  note a = credential_round_trip [of 87399 1000 key alice shop_db]
  note b = credential_round_trip [of 87400 1000 key alice shop_db]
  from a b t u r c show ?thesis
    by simp
qed

subsection \<open>The owning seller of a product\<close>

text \<open>
  C3. A product created by the add-product route has as owning-seller id the \<^verbatim>\<open>_id\<close> of
  the creating user's Seller record, not the user's own id. Revision 1 does otherwise:
  Alice (user 0, shop 3) adds a product, and the product stored has owning-seller id 0,
  her user id, which is the \<^verbatim>\<open>_id\<close> of no Seller record. The same request to revision 2
  stores owning-seller id 3, the \<^verbatim>\<open>_id\<close> of her shop.
\<close>

theorem add_product_owner_rev1:
  "User_findById shop_db_rev1 0 = Some alice \<and>
   Seller_findOne shop_db_rev1 (u_id alice) = Some alice_shop \<and>
   post_product_add_rev1 None key 2000 shop_db_rev1 alice_cookie no_form None
     = (shop_db_rev1\<lparr>products := products shop_db_rev1 @ [blank_rev1], next_oid := 8\<rparr>,
        reply 200 (MessageProduct ''Product added successfully'' blank_rev1)) \<and>
   p_sellerId blank_rev1 = u_id alice \<and>
   p_sellerId blank_rev1 \<noteq> s_id alice_shop \<and>
   find (\<lambda>s. s_id s = p_sellerId blank_rev1) (sellers shop_db_rev1) = None \<and>
   post_product_add_rev2 None key 2000 shop_db alice_cookie no_form None
     = (shop_db\<lparr>products := products shop_db @ [blank_rev2], next_oid := 8\<rparr>,
        reply 200 (MessageProduct ''Product added successfully'' blank_rev2)) \<and>
   p_sellerId blank_rev2 = s_id alice_shop"
  by (simp add: post_product_add_rev1_def post_product_add_rev2_def Product_create_def Let_def
      ex_defs store_defs)

text \<open>Revision 2 on every input: a product that the add-product route answers 200 for
  is appended to the collection, and its owning-seller id is the \<^verbatim>\<open>_id\<close> of the Seller
  record found for the user the cookie resolves to.\<close>

lemma add_product_owner_rev2:
  assumes "post_product_add_rev2 f secret now d cookie form file = (d1, r)"
    and "status r = 200"
  shows "\<exists>tok decoded u s newp.
           cookie = Some tok \<and> jwt_verify tok secret now = Inr decoded \<and>
           User_findById d (pl_id decoded) = Some u \<and>
           Seller_findOne d (u_id u) = Some s \<and>
           products d1 = products d @ [newp] \<and> sellers d1 = sellers d \<and>
           p_sellerId newp = s_id s \<and> p_shopId newp = s_id s \<and>
           r = reply 200 (MessageProduct ''Product added successfully'' newp)"
  using assms
  by (auto simp: post_product_add_rev2_def Product_create_def Let_def reply_def
      unauthorized_def server_error_def access_denied_def
      split: option.splits sum.splits if_splits)

text \<open>What is found is in the collection.\<close>

lemma Seller_findOne_mem: "Seller_findOne d i = Some s \<Longrightarrow> s \<in> set (sellers d) \<and> s_userId s = i"
  by (auto simp: Seller_findOne_def find_Some_iff)

lemma User_findById_mem: "User_findById d i = Some u \<Longrightarrow> u \<in> set (users d) \<and> u_id u = i"
  by (auto simp: User_findById_def find_Some_iff)

lemma Product_findById_mem: "Product_findById d i = Some p \<Longrightarrow> p \<in> set (products d) \<and> p_id p = i"
  by (auto simp: Product_findById_def find_Some_iff)

text \<open>The store operations keep \<open>store_inv\<close>, and so does every route of revision 2
  that writes.\<close>

lemma inv_User_create:
  "store_inv d \<Longrightarrow> User_create d g n e p r = Some (d', u) \<Longrightarrow> store_inv d'"
  by (fastforce simp: store_inv_def seller_refs_def oids_apart_def User_create_def Let_def
      split: if_splits)

lemma inv_Seller_create:
  "store_inv d \<Longrightarrow> Seller_create d uid n e sn st ph loc = Some (d', s) \<Longrightarrow> store_inv d'"
  by (fastforce simp: store_inv_def seller_refs_def oids_apart_def Seller_create_def Let_def
      split: if_splits field.splits)

lemma inv_user_save:
  "store_inv d \<Longrightarrow> User_findById d i = Some u \<Longrightarrow> store_inv (user_save d (u\<lparr>u_role := r\<rparr>))"
  by (fastforce simp: store_inv_def seller_refs_def oids_apart_def user_save_def
      dest: User_findById_mem)

lemma User_findById_Seller_create:
  "Seller_create d uid n e sn st ph loc = Some (d', s) \<Longrightarrow> User_findById d' i = User_findById d i"
  by (auto simp: Seller_create_def User_findById_def Let_def split: if_splits field.splits)

lemma inv_Product_create:
  "Product_create d doc = (d', p') \<Longrightarrow> Seller_findOne d i = Some s \<Longrightarrow> store_inv d \<Longrightarrow>
   p_sellerId doc = s_id s \<Longrightarrow> store_inv d'"
  by (fastforce simp: store_inv_def seller_refs_def oids_apart_def Product_create_def Let_def
      dest: Seller_findOne_mem)

lemma inv_product_save:
  assumes "store_inv d" and "Product_findById d i = Some p" and "p_sellerId p' = p_sellerId p"
  shows "store_inv (product_save d p')"
proof -
  have "p \<in> set (products d)"
    using assms(2) by (simp add: Product_findById_mem)
  then have "seller_refs (product_save d p')"
    using assms(1,3) by (auto simp: store_inv_def seller_refs_def product_save_def)
  moreover have "oids_apart (product_save d p')"
    using assms(1) by (simp add: store_inv_def oids_apart_def product_save_def)
  ultimately show ?thesis
    by (simp add: store_inv_def)
qed

lemma inv_delete: "store_inv d \<Longrightarrow> store_inv (Product_findByIdAndDelete d i)"
  by (auto simp: store_inv_def seller_refs_def oids_apart_def Product_findByIdAndDelete_def)

lemma inv_login: "store_inv d \<Longrightarrow> store_inv (fst (google_strategy f d prof))"
  by (auto simp: google_strategy_def split: option.splits list.splits if_splits
      intro: inv_User_create)

lemma inv_register:
  "store_inv d \<Longrightarrow> store_inv (fst (post_seller_register f secret now d cookie sform file))"
  by (auto simp: post_seller_register_def User_findById_Seller_create
      split: option.splits sum.splits if_splits
      intro: inv_Seller_create inv_user_save)

lemma inv_add:
  "store_inv d \<Longrightarrow> store_inv (fst (post_product_add_rev2 f secret now d cookie form file))"
  unfolding post_product_add_rev2_def
  by (auto split: option.splits sum.splits if_splits prod.splits)
     (erule (2) inv_Product_create, simp)

lemma inv_update:
  "store_inv d \<Longrightarrow>
   store_inv (fst (put_product_update_rev2 f secret now d cookie pid form file))"
  by (auto simp: put_product_update_rev2_def assign_rev2_def
      split: option.splits sum.splits if_splits intro: inv_product_save)

lemma inv_delete_route:
  "store_inv d \<Longrightarrow> store_inv (fst (delete_product_delete_rev2 f secret now d cookie pid))"
  by (auto simp: delete_product_delete_rev2_def split: option.splits sum.splits if_splits
      intro: inv_delete)

text \<open>In every store revision 2 can reach, each product's owning-seller id is the
  \<^verbatim>\<open>_id\<close> of a Seller record, and the \<^verbatim>\<open>_id\<close> of no user.\<close>

lemma reach_rev2_inv: "reach_rev2 d \<Longrightarrow> store_inv d"
proof (induction rule: reach_rev2.induct)
  case init
  show ?case
    by (simp add: store_inv_def seller_refs_def oids_apart_def empty_db_def)
qed (simp_all add: inv_login inv_register inv_add inv_update inv_delete_route)

lemma reach_rev2_seller_refs:
  assumes "reach_rev2 d" and "p \<in> set (products d)"
  shows "\<exists>s \<in> set (sellers d). s_id s = p_sellerId p \<and>
           (\<forall>u \<in> set (users d). u_id u \<noteq> p_sellerId p)"
  using reach_rev2_inv [OF assms(1)] assms(2)
  by (fastforce simp: store_inv_def seller_refs_def oids_apart_def)

end
